theory Spec2Isabelle
  imports Main
begin

section \<open>Python values, errors and dictionaries\<close>

text \<open>
  The rules of \<^verbatim>\<open>inspire_dojson/hep/rules/bd5xx.py\<close> work on dynamically typed values:
  strings, sequences of sub-field values, dictionaries (one raw field occurrence, one
  semantic entry) and \<^verbatim>\<open>None\<close>. A dictionary is an association list with distinct keys
  in insertion order; lookups go through \<open>map_of\<close>, so two dictionaries are equal as Python
  dictionaries when their \<open>map_of\<close> agree. \<open>PList\<close> stands for a Python list or tuple
  (dojson delivers repeated sub-fields as tuples). A string is the list of its characters
  when they are ASCII, and of its UTF-8 bytes in general. What Python computes from the
  characters of a text, \<^verbatim>\<open>str.upper\<close> and regular-expression matching, depends on the
  interpreter's character tables outside ASCII: the rules take these two operations as
  parameters, \<open>str_upper\<close> and \<open>match_defense_date\<close>, and the ASCII readings defined
  below say what they do on ASCII text.
\<close>

datatype pyval =
    PNone
  | PBool bool
  | PInt int
  | PStr string
  | PList "pyval list"
  | PDict "(string \<times> pyval) list"

type_synonym pydict = "(string \<times> pyval) list"

datatype py_error = AttributeError | TypeError | KeyError

type_synonym 'a result = "py_error + 'a"

fun rbind :: "'a result \<Rightarrow> ('a \<Rightarrow> 'b result) \<Rightarrow> 'b result" where
  "rbind (Inl e) f = Inl e"
| "rbind (Inr x) f = f x"

text \<open>\<^verbatim>\<open>d.get(k, default)\<close> on a dictionary.\<close>

definition dict_get :: "pydict \<Rightarrow> string \<Rightarrow> pyval \<Rightarrow> pyval" where
  "dict_get d k dflt = (case map_of d k of None \<Rightarrow> dflt | Some v \<Rightarrow> v)"

text \<open>\<^verbatim>\<open>d[k] = v\<close>: an existing key keeps its place, a new key goes last.\<close>

fun dict_set :: "pydict \<Rightarrow> string \<Rightarrow> pyval \<Rightarrow> pydict" where
  "dict_set [] k v = [(k, v)]"
| "dict_set ((k', v') # d) k v = (if k' = k then (k, v) # d else (k', v') # dict_set d k v)"

text \<open>\<^verbatim>\<open>value.get(k, default)\<close> on any value: only a dictionary has the method.\<close>

fun py_get :: "pyval \<Rightarrow> string \<Rightarrow> pyval \<Rightarrow> pyval result" where
  "py_get (PDict d) k dflt = Inr (dict_get d k dflt)"
| "py_get _ k dflt = Inl AttributeError"

text \<open>\<^verbatim>\<open>obj[k] = v\<close> with a string key: only a dictionary supports it.\<close>

fun py_setitem :: "pyval \<Rightarrow> string \<Rightarrow> pyval \<Rightarrow> pyval result" where
  "py_setitem (PDict d) k v = Inr (PDict (dict_set d k v))"
| "py_setitem _ k v = Inl TypeError"

text \<open>\<^verbatim>\<open>xs.append(v)\<close>: only a list has the method.\<close>

fun py_append :: "pyval \<Rightarrow> pyval \<Rightarrow> pyval result" where
  "py_append (PList xs) v = Inr (PList (xs @ [v]))"
| "py_append _ v = Inl AttributeError"

text \<open>Truth value of an object in a condition.\<close>

fun truthy :: "pyval \<Rightarrow> bool" where
  "truthy PNone = False"
| "truthy (PBool b) = b"
| "truthy (PInt i) = (i \<noteq> 0)"
| "truthy (PStr s) = (s \<noteq> [])"
| "truthy (PList xs) = (xs \<noteq> [])"
| "truthy (PDict d) = (d \<noteq> [])"

text \<open>A text of ASCII characters only.\<close>

definition ascii_text :: "string \<Rightarrow> bool" where
  "ascii_text s = list_all (\<lambda>c. (of_char c :: nat) < 128) s"

text \<open>
  \<^verbatim>\<open>s.upper()\<close> on an ASCII text: the letters a-z become A-Z and every other character
  stays. This is what every Python interpreter computes on ASCII text; it is the instance of
  \<open>str_upper\<close> in the examples.
\<close>

definition ascii_upper_char :: "char \<Rightarrow> char" where
  "ascii_upper_char c =
     (let n = (of_char c :: nat) in if 97 \<le> n \<and> n \<le> 122 then char_of (n - 32) else c)"

definition ascii_upper :: "string \<Rightarrow> string" where
  "ascii_upper s = map ascii_upper_char s"

text \<open>\<^verbatim>\<open>v.upper()\<close> on any value: only a string has the method.\<close>

fun py_upper :: "(string \<Rightarrow> string) \<Rightarrow> pyval \<Rightarrow> string result" where
  "py_upper str_upper (PStr s) = Inr (str_upper s)"
| "py_upper str_upper _ = Inl AttributeError"

text \<open>
  A value can be looked up in a dictionary only when it is hashable: dictionaries are not,
  and a tuple is when its elements are. A sequence is taken to be a tuple here, as dojson
  delivers the repeated sub-fields of a raw occurrence.
\<close>

primrec hashable :: "pyval \<Rightarrow> bool" where
  "hashable PNone = True"
| "hashable (PBool b) = True"
| "hashable (PInt i) = True"
| "hashable (PStr s) = True"
| "hashable (PList xs) = list_all (\<lambda>b. b) (map hashable xs)"
| "hashable (PDict d) = False"

text \<open>\<^verbatim>\<open>TABLE.get(key)\<close> for a table with string keys and string values.\<close>

definition table_get :: "(string \<times> string) list \<Rightarrow> pyval \<Rightarrow> pyval result" where
  "table_get tbl key =
     (if \<not> hashable key then Inl TypeError
      else Inr (case key of
                  PStr s \<Rightarrow> (case map_of tbl s of None \<Rightarrow> PNone | Some t \<Rightarrow> PStr t)
                | _ \<Rightarrow> PNone))"

section \<open>Helper collaborators\<close>

text \<open>
  Modelled from the spec: \<^verbatim>\<open>force_list\<close> of \<^verbatim>\<open>inspire_dojson/utils/helpers.py\<close>
  (normalize-to-list): a scalar becomes a one-element sequence, a sequence is itself; a
  missing value (\<^verbatim>\<open>None\<close>) degrades to the empty list.
\<close>

fun force_list :: "pyval \<Rightarrow> pyval list" where
  "force_list PNone = []"
| "force_list (PList xs) = xs"
| "force_list v = [v]"

text \<open>
  Modelled from the spec: \<^verbatim>\<open>force_single_element\<close> of \<^verbatim>\<open>inspire_dojson/utils\<close>
  (collapse-to-scalar): the only element of a one-element sequence, the first of a longer
  one, \<^verbatim>\<open>None\<close> for an empty or missing one; a scalar is its own only element.
\<close>

definition force_single_element :: "pyval \<Rightarrow> pyval" where
  "force_single_element v = (case force_list v of [] \<Rightarrow> PNone | x # _ \<Rightarrow> x)"

text \<open>
  The decorator \<^verbatim>\<open>utils.for_each_value\<close> of dojson: the decorated rule maps its body over
  the occurrences it is given and returns the list of results; a single occurrence gives a
  one-element list. The first exception of a body ends the call.
\<close>

fun map_result :: "('a \<Rightarrow> 'b result) \<Rightarrow> 'a list \<Rightarrow> 'b list result" where
  "map_result f [] = Inr []"
| "map_result f (x # xs) = rbind (f x) (\<lambda>y. rbind (map_result f xs) (\<lambda>ys. Inr (y # ys)))"

definition for_each_value :: "(pyval \<Rightarrow> pyval result) \<Rightarrow> pyval \<Rightarrow> pyval result" where
  "for_each_value f values =
     (case values of
        PList vs \<Rightarrow> rbind (map_result f vs) (\<lambda>ys. Inr (PList ys))
      | _ \<Rightarrow> rbind (f values) (\<lambda>y. Inr (PList [y])))"

text \<open>A \<^verbatim>\<open>for\<close> loop that updates local state and may raise.\<close>

fun for_loop :: "('s \<Rightarrow> 'a \<Rightarrow> 's result) \<Rightarrow> 's \<Rightarrow> 'a list \<Rightarrow> 's result" where
  "for_loop body s [] = Inr s"
| "for_loop body s (x # xs) = rbind (body s x) (\<lambda>s'. for_loop body s' xs)"

text \<open>
  A rule reads a key of the in-progress output record with \<^verbatim>\<open>self.get(key, default)\<close>
  and mutates the object it got. When the key was there, the object inside the record is
  the one mutated, so the record sees the change; a fresh default is not part of the record.
\<close>

definition write_back :: "pydict \<Rightarrow> string \<Rightarrow> pyval \<Rightarrow> pydict" where
  "write_back self k v = (if map_of self k = None then self else dict_set self k v)"

section \<open>Tag 500: public notes and the defense date\<close>

text \<open>
  \<^verbatim>\<open>IS_DEFENSE_DATE = re.compile('Presented on (?P<defense_date>\d{4}(-\d{2}){,2})', re.IGNORECASE)\<close>.
  \<^verbatim>\<open>match\<close> anchors the pattern at the start of the text only, and the repetition is greedy.
  \<open>IS_DEFENSE_DATE_ascii\<close> is the test \<^verbatim>\<open>IS_DEFENSE_DATE.match(text)\<close> on an ASCII text:
  the text of the group \<^verbatim>\<open>defense_date\<close>, or \<open>None\<close> when there is no match. On ASCII text
  a letter of the pattern matches its two cases and \<^verbatim>\<open>\d\<close> matches the digits 0-9.
\<close>

definition is_ascii_digit :: "char \<Rightarrow> bool" where
  "is_ascii_digit c = (let n = (of_char c :: nat) in 48 \<le> n \<and> n \<le> 57)"

fun dash_two_digits :: "string \<Rightarrow> string option" where
  "dash_two_digits (c # d1 # d2 # rest) =
     (if c = CHR ''-'' \<and> is_ascii_digit d1 \<and> is_ascii_digit d2 then Some [c, d1, d2] else None)"
| "dash_two_digits _ = None"

definition IS_DEFENSE_DATE_ascii :: "string \<Rightarrow> string option" where
  "IS_DEFENSE_DATE_ascii s =
     (let lit = ''Presented on '';
          n = length lit;
          year = take 4 (drop n s);
          rest = drop (n + 4) s
      in if ascii_upper (take n s) = ascii_upper lit \<and> length year = 4 \<and>
            list_all is_ascii_digit year
         then (case dash_two_digits rest of
                 None \<Rightarrow> Some year
               | Some g1 \<Rightarrow>
                   (case dash_two_digits (drop 3 rest) of
                      None \<Rightarrow> Some (year @ g1)
                    | Some g2 \<Rightarrow> Some (year @ g1 @ g2)))
         else None)"

text \<open>
  The body of the inner loop of \<^verbatim>\<open>public_notes\<close>: the state is the pair of the note list
  and the thesis-info object. The parameter \<open>match_defense_date\<close> is the test
  \<^verbatim>\<open>IS_DEFENSE_DATE.match(public_note)\<close> of the interpreter, giving the group
  \<^verbatim>\<open>defense_date\<close> of a match. Matching a text that is not a string raises
  \<^verbatim>\<open>TypeError\<close>.
\<close>

fun public_note_step ::
  "(string \<Rightarrow> string option) \<Rightarrow> pyval \<Rightarrow> pyval \<times> pyval \<Rightarrow> pyval \<Rightarrow> (pyval \<times> pyval) result" where
  "public_note_step match_defense_date source (notes, ti) (PStr text) =
     (case match_defense_date text of
        Some date \<Rightarrow> rbind (py_setitem ti ''defense_date'' (PStr date)) (\<lambda>ti'. Inr (notes, ti'))
      | None \<Rightarrow>
          rbind (py_append notes (PDict [(''source'', source), (''value'', PStr text)]))
            (\<lambda>notes'. Inr (notes', ti)))"
| "public_note_step match_defense_date source (notes, ti) _ = Inl TypeError"

definition public_notes_occurrence ::
  "(string \<Rightarrow> string option) \<Rightarrow> pyval \<Rightarrow> pyval \<times> pyval \<Rightarrow> pyval \<Rightarrow> (pyval \<times> pyval) result" where
  "public_notes_occurrence match_defense_date source st occ =
     rbind (py_get occ ''a'' PNone)
       (\<lambda>a. for_loop (public_note_step match_defense_date source) st (force_list a))"

text \<open>
  \<^verbatim>\<open>public_notes(self, key, value)\<close>: returns the note list and the output record after
  the call. The source is read from \<open>value\<close> once, before the loop over \<open>force_list value\<close>.
\<close>

definition public_notes ::
  "(string \<Rightarrow> string option) \<Rightarrow> pydict \<Rightarrow> pyval \<Rightarrow> (pyval \<times> pydict) result" where
  "public_notes match_defense_date self value =
     (let notes0 = dict_get self ''public_notes'' (PList []);
          ti0 = dict_get self ''thesis_info'' (PDict [])
      in rbind (py_get value ''9'' (PStr [])) (\<lambda>s9.
         let source = force_single_element s9
         in rbind (for_loop (public_notes_occurrence match_defense_date source) (notes0, ti0)
                     (force_list value))
              (\<lambda>(notes, ti).
                 Inr (notes, dict_set (write_back self ''public_notes'' notes) ''thesis_info'' ti))))"


section \<open>Tag 502: thesis info\<close>

definition DEGREE_TYPES_MAP :: "(string \<times> string) list" where
  "DEGREE_TYPES_MAP =
     [(''RAPPORT DE STAGE'', ''other''),
      (''INTERNSHIP REPORT'', ''other''),
      (''DIPLOMA'', ''diploma''),
      (''BACHELOR'', ''bachelor''),
      (''LAUREA'', ''laurea''),
      (''MASTER'', ''master''),
      (''THESIS'', ''other''),
      (''PHD'', ''phd''),
      (''PDF'', ''phd''),
      (''PH.D. THESIS'', ''phd''),
      (''HABILITATION'', ''habilitation'')]"

text \<open>
  \<^verbatim>\<open>_get_degree_type\<close>: a function that ends without \<^verbatim>\<open>return\<close> returns \<^verbatim>\<open>None\<close>.
  The parameter \<open>str_upper\<close> is \<^verbatim>\<open>str.upper\<close> of the interpreter.
\<close>

definition get_degree_type :: "(string \<Rightarrow> string) \<Rightarrow> pyval \<Rightarrow> pyval result" where
  "get_degree_type str_upper value =
     rbind (py_get value ''b'' (PStr [])) (\<lambda>b.
       let b_value = force_single_element b
       in if truthy b_value
          then rbind (py_upper str_upper b_value) (\<lambda>u.
                 Inr (PStr (case map_of DEGREE_TYPES_MAP u of None \<Rightarrow> ''other'' | Some t \<Rightarrow> t)))
          else Inr PNone)"

text \<open>
  \<^verbatim>\<open>_get_institutions\<close>. The reference resolver \<^verbatim>\<open>get_record_ref\<close> of
  \<^verbatim>\<open>inspire_dojson/utils\<close> is a parameter: a pure function from a reference key and a
  collection name to a reference object or \<^verbatim>\<open>None\<close>.
\<close>

definition get_institutions :: "(pyval \<Rightarrow> string \<Rightarrow> pyval) \<Rightarrow> pyval \<Rightarrow> pyval result" where
  "get_institutions get_record_ref value =
     rbind (py_get value ''c'' PNone) (\<lambda>c.
     rbind (py_get value ''z'' PNone) (\<lambda>z.
       let c_values = force_list c;
           z_values = force_list z
       in if length c_values \<noteq> length z_values
          then Inr (PList (map (\<lambda>c_value. PDict [(''name'', c_value)]) c_values))
          else Inr (PList (map (\<lambda>(c_value, z_value).
                       PDict [(''curated_relation'', PBool True),
                              (''name'', c_value),
                              (''record'', get_record_ref z_value ''institutions'')])
                     (zip c_values z_values)))))"

text \<open>
  \<^verbatim>\<open>thesis_info(self, key, value)\<close>: returns the thesis-info object and the output record
  after the call. Each right-hand side is evaluated before its item assignment.
\<close>

definition thesis_info ::
  "(string \<Rightarrow> string) \<Rightarrow> (pyval \<Rightarrow> string \<Rightarrow> pyval) \<Rightarrow> pydict \<Rightarrow> pyval \<Rightarrow>
     (pyval \<times> pydict) result" where
  "thesis_info str_upper get_record_ref self value =
     (let ti0 = dict_get self ''thesis_info'' (PDict [])
      in rbind (py_get value ''d'' PNone) (\<lambda>d.
         rbind (py_setitem ti0 ''date'' (force_single_element d)) (\<lambda>ti1.
         rbind (get_degree_type str_upper value) (\<lambda>degree_type.
         rbind (py_setitem ti1 ''degree_type'' degree_type) (\<lambda>ti2.
         rbind (get_institutions get_record_ref value) (\<lambda>institutions.
         rbind (py_setitem ti2 ''institutions'' institutions) (\<lambda>ti3.
           Inr (ti3, write_back self ''thesis_info'' ti3))))))))"

text \<open>
  An instance of the resolver parameter for the examples below: a string key resolves to a
  reference object naming the collection and the key, anything else is unresolvable.
\<close>

fun sample_record_ref :: "pyval \<Rightarrow> string \<Rightarrow> pyval" where
  "sample_record_ref (PStr z) collection = PDict [(''$ref'', PStr (''/api/'' @ collection @ ''/'' @ z))]"
| "sample_record_ref _ collection = PNone"

section \<open>Tags 536, 540, 542: funding, license, copyright\<close>

text \<open>
  These rules are decorated with \<^verbatim>\<open>for_each_value\<close> and do not touch the output record;
  the \<open>_body\<close> functions are the decorated Python functions.
\<close>

definition funding_info_body :: "pyval \<Rightarrow> pyval result" where
  "funding_info_body value =
     rbind (py_get value ''a'' PNone) (\<lambda>a.
     rbind (py_get value ''c'' PNone) (\<lambda>c.
     rbind (py_get value ''f'' PNone) (\<lambda>f.
       Inr (PDict [(''agency'', a), (''grant_number'', c), (''project_number'', f)]))))"

definition funding_info :: "pyval \<Rightarrow> pyval result" where
  "funding_info = for_each_value funding_info_body"

definition funding_info2marc_body :: "pyval \<Rightarrow> pyval result" where
  "funding_info2marc_body value =
     rbind (py_get value ''agency'' PNone) (\<lambda>a.
     rbind (py_get value ''grant_number'' PNone) (\<lambda>c.
     rbind (py_get value ''project_number'' PNone) (\<lambda>f.
       Inr (PDict [(''a'', a), (''c'', c), (''f'', f)]))))"

definition funding_info2marc :: "pyval \<Rightarrow> pyval result" where
  "funding_info2marc = for_each_value funding_info2marc_body"

text \<open>
  \<^verbatim>\<open>license\<close>: the comprehension
  \<^verbatim>\<open>[val for val in license_value if license_value != 'Open Access']\<close> tests the list
  \<^verbatim>\<open>license_value\<close> itself against the string.
\<close>

definition license_body :: "pyval \<Rightarrow> pyval result" where
  "license_body value =
     rbind (py_get value ''a'' PNone) (\<lambda>a.
       let license_value = force_list a;
           license_value = filter (\<lambda>val. PList license_value \<noteq> PStr ''Open Access'') license_value;
           license_value = force_single_element (PList license_value)
       in rbind (py_get value ''b'' PNone) (\<lambda>b.
          rbind (py_get value ''u'' PNone) (\<lambda>u.
          rbind (py_get value ''3'' PNone) (\<lambda>m.
            Inr (PDict [(''license'', license_value), (''imposing'', b),
                        (''url'', u), (''material'', m)])))))"

definition license :: "pyval \<Rightarrow> pyval result" where
  "license = for_each_value license_body"

definition license2marc_body :: "pyval \<Rightarrow> pyval result" where
  "license2marc_body value =
     rbind (py_get value ''license'' PNone) (\<lambda>a.
     rbind (py_get value ''imposing'' PNone) (\<lambda>b.
     rbind (py_get value ''url'' PNone) (\<lambda>u.
     rbind (py_get value ''material'' PNone) (\<lambda>m.
       Inr (PDict [(''a'', a), (''b'', b), (''u'', u), (''3'', m)])))))"

definition license2marc :: "pyval \<Rightarrow> pyval result" where
  "license2marc = for_each_value license2marc_body"

definition MATERIAL_MAP :: "(string \<times> string) list" where
  "MATERIAL_MAP = [(''Article'', ''publication''), (''Published thesis as a book'', ''publication'')]"

definition E_MAP :: "(string \<times> string) list" where
  "E_MAP = [(''publication'', ''Article'')]"

text \<open>
  \<^verbatim>\<open>copyright\<close>: \<^verbatim>\<open>x or y\<close> is \<open>x\<close> when \<open>x\<close> is true and \<open>y\<close> otherwise. The integer
  parser \<^verbatim>\<open>maybe_int\<close> of \<^verbatim>\<open>inspire_dojson/utils/helpers.py\<close> is a parameter: a pure
  function to an integer or \<^verbatim>\<open>None\<close>.
\<close>

definition copyright_body :: "(pyval \<Rightarrow> pyval) \<Rightarrow> pyval \<Rightarrow> pyval result" where
  "copyright_body maybe_int value =
     rbind (py_get value ''e'' PNone) (\<lambda>e.
     rbind (if truthy e then Inr e else py_get value ''3'' PNone) (\<lambda>material.
     rbind (py_get value ''d'' PNone) (\<lambda>d.
     rbind (table_get MATERIAL_MAP material) (\<lambda>m.
     rbind (py_get value ''f'' PNone) (\<lambda>f.
     rbind (py_get value ''u'' PNone) (\<lambda>u.
     rbind (py_get value ''g'' PNone) (\<lambda>g.
       Inr (PDict [(''holder'', d), (''material'', m), (''statement'', f),
                   (''url'', u), (''year'', maybe_int g)]))))))))"

definition copyright :: "(pyval \<Rightarrow> pyval) \<Rightarrow> pyval \<Rightarrow> pyval result" where
  "copyright maybe_int = for_each_value (copyright_body maybe_int)"

definition copyright2marc_body :: "pyval \<Rightarrow> pyval result" where
  "copyright2marc_body value =
     rbind (py_get value ''material'' PNone) (\<lambda>e_value.
     rbind (py_get value ''holder'' PNone) (\<lambda>d.
     rbind (table_get E_MAP e_value) (\<lambda>e.
     rbind (py_get value ''statement'' PNone) (\<lambda>f.
     rbind (py_get value ''year'' PNone) (\<lambda>g.
     rbind (py_get value ''url'' PNone) (\<lambda>u.
       Inr (PDict [(''d'', d), (''e'', e), (''f'', f), (''g'', g), (''u'', u)])))))))"

definition copyright2marc :: "pyval \<Rightarrow> pyval result" where
  "copyright2marc = for_each_value copyright2marc_body"

section \<open>Tag 595: HAL notes, private notes backward, export flags\<close>

text \<open>\<^verbatim>\<open>_private_notes_hal\<close>: the rule for 595 with second indicator H.\<close>

definition private_notes_hal_occurrence :: "pyval \<Rightarrow> pyval \<Rightarrow> pyval result" where
  "private_notes_hal_occurrence notes value =
     rbind (py_get value ''a'' PNone) (\<lambda>a.
       for_loop (\<lambda>ns note. py_append ns (PDict [(''source'', PStr ''HAL''), (''value'', note)]))
         notes (force_list a))"

definition private_notes_hal :: "pydict \<Rightarrow> pyval \<Rightarrow> (pyval \<times> pydict) result" where
  "private_notes_hal self value =
     (let notes0 = dict_get self ''_private_notes'' (PList [])
      in rbind (for_loop private_notes_hal_occurrence notes0 (force_list value))
           (\<lambda>notes. Inr (notes, write_back self ''_private_notes'' notes)))"

text \<open>
  \<^verbatim>\<open>_private_notes2marc\<close>: the state of the loop is the pair of the 595 list and the
  595_H list; the rule returns the first and stores the second in the output record.
\<close>

definition private_notes2marc_step :: "pyval \<times> pyval \<Rightarrow> pyval \<Rightarrow> (pyval \<times> pyval) result" where
  "private_notes2marc_step st value =
     (case st of (result_595, result_595_H) \<Rightarrow>
        rbind (py_get value ''source'' PNone) (\<lambda>source.
          if source = PStr ''HAL''
          then rbind (py_get value ''value'' PNone) (\<lambda>v.
               rbind (py_append result_595_H (PDict [(''a'', v)])) (\<lambda>h. Inr (result_595, h)))
          else rbind (py_get value ''source'' PNone) (\<lambda>s.
               rbind (py_get value ''value'' PNone) (\<lambda>v.
               rbind (py_append result_595 (PDict [(''9'', s), (''a'', v)])) (\<lambda>r. Inr (r, result_595_H))))))"

definition private_notes2marc :: "pydict \<Rightarrow> pyval \<Rightarrow> (pyval \<times> pydict) result" where
  "private_notes2marc self value =
     (let r0 = dict_get self ''595'' (PList []);
          h0 = dict_get self ''595_H'' (PList [])
      in rbind (for_loop private_notes2marc_step (r0, h0) (force_list value))
           (\<lambda>(result_595, result_595_H).
              Inr (result_595, dict_set (write_back self ''595'' result_595) ''595_H'' result_595_H)))"

text \<open>
  \<^verbatim>\<open>k in value\<close> for a string \<open>k\<close>: key membership in a dictionary, element membership in
  a sequence, substring test in a string. \<^verbatim>\<open>value[k]\<close> for a string \<open>k\<close>.
\<close>

fun is_substring :: "string \<Rightarrow> string \<Rightarrow> bool" where
  "is_substring k [] = (k = [])"
| "is_substring k (c # cs) = (take (length k) (c # cs) = k \<or> is_substring k cs)"

fun py_in :: "string \<Rightarrow> pyval \<Rightarrow> bool result" where
  "py_in k (PDict d) = Inr (map_of d k \<noteq> None)"
| "py_in k (PList xs) = Inr (PStr k \<in> set xs)"
| "py_in k (PStr s) = Inr (is_substring k s)"
| "py_in k _ = Inl TypeError"

fun py_getitem :: "pyval \<Rightarrow> string \<Rightarrow> pyval result" where
  "py_getitem (PDict d) k = (case map_of d k of None \<Rightarrow> Inl KeyError | Some v \<Rightarrow> Inr v)"
| "py_getitem _ k = Inl TypeError"

text \<open>
  \<^verbatim>\<open>_export_to2marc\<close>, with its tests \<^verbatim>\<open>_is_for_cds\<close>, \<^verbatim>\<open>_is_for_hal\<close> and
  \<^verbatim>\<open>_is_not_for_hal\<close>; \<^verbatim>\<open>and\<close> evaluates its right operand only when the left one is true.
\<close>

definition export_is_for_cds :: "pyval \<Rightarrow> bool result" where
  "export_is_for_cds value = py_in ''CDS'' value"

definition export_is_for_hal :: "pyval \<Rightarrow> bool result" where
  "export_is_for_hal value =
     rbind (py_in ''HAL'' value) (\<lambda>present.
       if present then rbind (py_getitem value ''HAL'') (\<lambda>v. Inr (truthy v)) else Inr False)"

definition export_is_not_for_hal :: "pyval \<Rightarrow> bool result" where
  "export_is_not_for_hal value =
     rbind (py_in ''HAL'' value) (\<lambda>present.
       if present then rbind (py_getitem value ''HAL'') (\<lambda>v. Inr (\<not> truthy v)) else Inr False)"

definition export_to2marc :: "pyval \<Rightarrow> pyval result" where
  "export_to2marc value =
     rbind (export_is_for_cds value) (\<lambda>cds.
       if cds then Inr (PList [PDict [(''c'', PStr ''CDS'')]])
       else rbind (export_is_for_hal value) (\<lambda>hal.
         if hal then Inr (PList [PDict [(''c'', PStr ''HAL'')]])
         else rbind (export_is_not_for_hal value) (\<lambda>not_hal.
           if not_hal then Inr (PList [PDict [(''c'', PStr ''not HAL'')]])
           else Inr (PList []))))"

section \<open>Basic facts about the model\<close>

lemma map_of_dict_set: "map_of (dict_set d k v) = (map_of d)(k \<mapsto> v)"
  by (induction d) auto

lemma force_single_element_force_list:
  "force_single_element (PList (force_list v)) = force_single_element v"
  by (simp add: force_single_element_def)

lemma for_each_value_dict:
  "for_each_value f (PDict d) = rbind (f (PDict d)) (\<lambda>y. Inr (PList [y]))"
  by (simp add: for_each_value_def)

lemma for_each_value_singleton:
  "for_each_value f (PList [v]) = rbind (f v) (\<lambda>y. Inr (PList [y]))"
  by (cases "f v") (simp_all add: for_each_value_def)

lemma rbind_eq_Inr: "rbind m f = Inr y \<longleftrightarrow> (\<exists>x. m = Inr x \<and> f x = Inr y)"
  by (cases m) auto

lemma py_setitem_eq_Inr:
  "py_setitem v k x = Inr y \<longleftrightarrow> (\<exists>d. v = PDict d \<and> y = PDict (dict_set d k x))"
  by (cases v) auto




section \<open>Tag 540: the license string is never filtered\<close>

lemma license_body_dict:
  "license_body (PDict d) =
     Inr (PDict [(''license'', force_single_element (dict_get d ''a'' PNone)),
                 (''imposing'', dict_get d ''b'' PNone),
                 (''url'', dict_get d ''u'' PNone),
                 (''material'', dict_get d ''3'' PNone)])"
  by (simp add: license_body_def force_single_element_force_list)

text \<open>
  C10. In the forward license rule the filter meant to strip \<^verbatim>\<open>'Open Access'\<close> compares
  the whole list with the string, so it removes nothing: for every occurrence the
  \<^verbatim>\<open>license\<close> attribute is the collapsed value of sub-field \<^verbatim>\<open>a\<close>, unchanged, also when
  that value is \<^verbatim>\<open>'Open Access'\<close>.
\<close>

theorem license_keeps_open_access:
  "license (PDict d) =
     Inr (PList [PDict [(''license'', force_single_element (dict_get d ''a'' PNone)),
                        (''imposing'', dict_get d ''b'' PNone),
                        (''url'', dict_get d ''u'' PNone),
                        (''material'', dict_get d ''3'' PNone)]])"
  by (simp add: license_def for_each_value_dict license_body_dict)

theorem license_keeps_open_access_witness:
  "license (PDict [(''a'', PStr ''Open Access'')]) =
     Inr (PList [PDict [(''license'', PStr ''Open Access''), (''imposing'', PNone),
                        (''url'', PNone), (''material'', PNone)]])"
  using license_keeps_open_access [of "[(''a'', PStr ''Open Access'')]"]
  by (simp add: dict_get_def force_single_element_def)

section \<open>Export flags, backward\<close>

lemma export_to2marc_dict:
  "export_to2marc (PDict d) =
     Inr (PList (if map_of d ''CDS'' \<noteq> None then [PDict [(''c'', PStr ''CDS'')]]
                 else case map_of d ''HAL'' of
                        None \<Rightarrow> []
                      | Some v \<Rightarrow> if truthy v then [PDict [(''c'', PStr ''HAL'')]]
                                  else [PDict [(''c'', PStr ''not HAL'')]]))"
  by (simp add: export_to2marc_def export_is_for_cds_def export_is_for_hal_def
      export_is_not_for_hal_def split: option.splits)

text \<open>
  C7. For every export-flag object the backward export rule returns at most one
  occurrence, chosen by the precedence CDS present, then HAL true, then HAL false. An object
  with the CDS flag and HAL true gives exactly the occurrence with \<^verbatim>\<open>c\<close> equal to
  \<^verbatim>\<open>'CDS'\<close>; an object with none of the three conditions gives the empty list.
\<close>

theorem export_to2marc_precedence:
  "(\<exists>occs. export_to2marc (PDict d) = Inr (PList occs) \<and> length occs \<le> 1) \<and>
   (map_of d ''CDS'' \<noteq> None \<longrightarrow>
      export_to2marc (PDict d) = Inr (PList [PDict [(''c'', PStr ''CDS'')]])) \<and>
   (map_of d ''CDS'' = None \<and> map_of d ''HAL'' = Some v \<and> truthy v \<longrightarrow>
      export_to2marc (PDict d) = Inr (PList [PDict [(''c'', PStr ''HAL'')]])) \<and>
   (map_of d ''CDS'' = None \<and> map_of d ''HAL'' = Some v \<and> \<not> truthy v \<longrightarrow>
      export_to2marc (PDict d) = Inr (PList [PDict [(''c'', PStr ''not HAL'')]])) \<and>
   (map_of d ''CDS'' = None \<and> map_of d ''HAL'' = None \<longrightarrow>
      export_to2marc (PDict d) = Inr (PList []))"
  by (simp add: export_to2marc_dict split: option.splits)

theorem export_to2marc_precedence_witness:
  "export_to2marc (PDict [(''HAL'', PBool True), (''CDS'', PBool True)]) =
     Inr (PList [PDict [(''c'', PStr ''CDS'')]]) \<and>
   export_to2marc (PDict [(''HAL'', PBool True)]) = Inr (PList [PDict [(''c'', PStr ''HAL'')]]) \<and>
   export_to2marc (PDict [(''HAL'', PBool False)]) =
     Inr (PList [PDict [(''c'', PStr ''not HAL'')]]) \<and>
   export_to2marc (PDict []) = Inr (PList [])"
  using export_to2marc_precedence [of "[(''HAL'', PBool True), (''CDS'', PBool True)]" "PBool True"]
    export_to2marc_precedence [of "[(''HAL'', PBool True)]" "PBool True"]
    export_to2marc_precedence [of "[(''HAL'', PBool False)]" "PBool False"]
    export_to2marc_precedence [of "[]" "PNone"]
  by simp

section \<open>Tag 502: degree type, institutions and the merge\<close>

lemma get_institutions_dict:
  "get_institutions get_record_ref (PDict d) =
     Inr (PList (let c_values = force_list (dict_get d ''c'' PNone);
                     z_values = force_list (dict_get d ''z'' PNone)
                 in if length c_values \<noteq> length z_values
                    then map (\<lambda>c_value. PDict [(''name'', c_value)]) c_values
                    else map (\<lambda>(c_value, z_value).
                           PDict [(''curated_relation'', PBool True),
                                  (''name'', c_value),
                                  (''record'', get_record_ref z_value ''institutions'')])
                         (zip c_values z_values)))"
  by (simp add: get_institutions_def Let_def)

lemma get_degree_type_string:
  "force_single_element (dict_get d ''b'' (PStr [])) = PStr s \<Longrightarrow>
   get_degree_type str_upper (PDict d) =
     Inr (if s = [] then PNone
          else PStr (case map_of DEGREE_TYPES_MAP (str_upper s) of None \<Rightarrow> ''other'' | Some t \<Rightarrow> t))"
  by (simp add: get_degree_type_def)

lemma get_degree_type_false:
  "\<not> truthy (force_single_element (dict_get d ''b'' (PStr []))) \<Longrightarrow>
   get_degree_type str_upper (PDict d) = Inr PNone"
  by (simp add: get_degree_type_def)

lemma get_degree_type_returns:
  assumes "force_single_element (dict_get d ''b'' (PStr [])) = b"
      and "(\<exists>s. b = PStr s) \<or> \<not> truthy b"
  shows "\<exists>dt. get_degree_type str_upper (PDict d) = Inr dt"
  using assms by (auto simp: get_degree_type_def)

lemma thesis_info_dict:
  assumes "dict_get self ''thesis_info'' (PDict []) = PDict t"
      and "get_degree_type str_upper (PDict d) = Inr degree_type"
      and "get_institutions get_record_ref (PDict d) = Inr institutions"
      and "t' = dict_set (dict_set (dict_set t ''date'' (force_single_element (dict_get d ''d'' PNone)))
                  ''degree_type'' degree_type) ''institutions'' institutions"
  shows "thesis_info str_upper get_record_ref self (PDict d) =
           Inr (PDict t', write_back self ''thesis_info'' (PDict t'))"
  using assms by (simp add: thesis_info_def)

lemma ascii_upper_degree_literals:
  "ascii_upper ''Ph.D. Thesis'' = ''PH.D. THESIS''"
  "ascii_upper ''Rapport de Stage'' = ''RAPPORT DE STAGE''"
  by code_simp+

lemma ascii_text_degree_literals:
  "ascii_text ''Ph.D. Thesis''" "ascii_text ''Rapport de Stage''" "ascii_text []"
  by (simp_all add: ascii_text_def)

lemma ascii_upper_degree_example:
  "ascii_upper ''ph.d. THESIS'' = ascii_upper ''Ph.D. Thesis''"
  by code_simp

text \<open>
  C2, as the code has it. In the forward thesis-info rule the degree-type sub-field \<^verbatim>\<open>b\<close>
  equal to \<^verbatim>\<open>Ph.D. Thesis\<close> in any letter case gives \<^verbatim>\<open>phd\<close>, \<^verbatim>\<open>Rapport de Stage\<close>
  gives \<^verbatim>\<open>other\<close>, and any other non-empty string that the table does not map gives
  \<^verbatim>\<open>other\<close>. For an empty or absent \<^verbatim>\<open>b\<close> the returned object has the key
  \<^verbatim>\<open>degree_type\<close> with the value \<^verbatim>\<open>None\<close>: the key is present, not absent.
  Two strings are equal up to letter case when \<^verbatim>\<open>str.upper\<close> gives the same on both, which
  is the comparison the rule makes; of \<^verbatim>\<open>str.upper\<close> the theorem uses only what it does
  on ASCII text.
\<close>

theorem thesis_info_degree_type:
  assumes "dict_get self ''thesis_info'' (PDict []) = PDict t"
      and "force_single_element (dict_get d ''b'' (PStr [])) = b"
      and "b = PStr s \<or> \<not> truthy b"
      and "\<forall>x. ascii_text x \<longrightarrow> str_upper x = ascii_upper x"
  shows "\<exists>t' self'. thesis_info str_upper get_record_ref self (PDict d) = Inr (PDict t', self') \<and>
           (b = PStr s \<and> str_upper s = str_upper ''Ph.D. Thesis'' \<longrightarrow>
              map_of t' ''degree_type'' = Some (PStr ''phd'')) \<and>
           (b = PStr s \<and> str_upper s = str_upper ''Rapport de Stage'' \<longrightarrow>
              map_of t' ''degree_type'' = Some (PStr ''other'')) \<and>
           (b = PStr s \<and> s \<noteq> [] \<and> map_of DEGREE_TYPES_MAP (str_upper s) = None \<longrightarrow>
              map_of t' ''degree_type'' = Some (PStr ''other'')) \<and>
           (\<not> truthy b \<longrightarrow> map_of t' ''degree_type'' = Some PNone)"
proof -
  have phd: "str_upper ''Ph.D. Thesis'' = ''PH.D. THESIS''"
    using assms(4) by (simp add: ascii_text_degree_literals ascii_upper_degree_literals)
  have stage: "str_upper ''Rapport de Stage'' = ''RAPPORT DE STAGE''"
    using assms(4) by (simp add: ascii_text_degree_literals ascii_upper_degree_literals)
  have empty: "str_upper [] = []"
    using assms(4) by (simp add: ascii_text_degree_literals ascii_upper_def)
  obtain inst where inst: "get_institutions get_record_ref (PDict d) = Inr inst"
    by (simp add: get_institutions_dict)
  have "\<exists>dt. get_degree_type str_upper (PDict d) = Inr dt \<and>
          (b = PStr s \<and> str_upper s = ''PH.D. THESIS'' \<longrightarrow> dt = PStr ''phd'') \<and>
          (b = PStr s \<and> str_upper s = ''RAPPORT DE STAGE'' \<longrightarrow> dt = PStr ''other'') \<and>
          (b = PStr s \<and> s \<noteq> [] \<and> map_of DEGREE_TYPES_MAP (str_upper s) = None \<longrightarrow>
             dt = PStr ''other'') \<and>
          (\<not> truthy b \<longrightarrow> dt = PNone)"
  proof (cases "truthy b")
    case True
    with assms(3) have b: "b = PStr s" and s: "s \<noteq> []" by auto
    from b assms(2) have "get_degree_type str_upper (PDict d) =
        Inr (PStr (case map_of DEGREE_TYPES_MAP (str_upper s) of None \<Rightarrow> ''other'' | Some t \<Rightarrow> t))"
      using s by (simp add: get_degree_type_string)
    then show ?thesis using True
      by (auto simp: DEGREE_TYPES_MAP_def)
  next
    case False
    with assms(2) have run: "get_degree_type str_upper (PDict d) = Inr PNone"
      by (simp add: get_degree_type_false)
    have "str_upper s = []" if "b = PStr s"
      using that False empty by simp
    with run False show ?thesis by auto
  qed
  then obtain dt where dt: "get_degree_type str_upper (PDict d) = Inr dt"
      and c1: "b = PStr s \<and> str_upper s = ''PH.D. THESIS'' \<longrightarrow> dt = PStr ''phd''"
      and c2: "b = PStr s \<and> str_upper s = ''RAPPORT DE STAGE'' \<longrightarrow> dt = PStr ''other''"
      and c3: "b = PStr s \<and> s \<noteq> [] \<and> map_of DEGREE_TYPES_MAP (str_upper s) = None \<longrightarrow>
                 dt = PStr ''other''"
      and c4: "\<not> truthy b \<longrightarrow> dt = PNone"
    by blast
  define t' where "t' = dict_set (dict_set (dict_set t ''date'' (force_single_element (dict_get d ''d'' PNone)))
                  ''degree_type'' dt) ''institutions'' inst"
  have run: "thesis_info str_upper get_record_ref self (PDict d) =
           Inr (PDict t', write_back self ''thesis_info'' (PDict t'))"
    using assms(1) dt inst t'_def by (rule thesis_info_dict)
  have key: "map_of t' ''degree_type'' = Some dt"
    by (simp add: t'_def map_of_dict_set)
  show ?thesis using run key c1 c2 c3 c4 unfolding phd stage by auto
qed

theorem thesis_info_degree_type_witness:
  "(\<exists>t' self'. thesis_info ascii_upper sample_record_ref [] (PDict [(''b'', PStr ''ph.d. THESIS'')]) =
        Inr (PDict t', self') \<and> map_of t' ''degree_type'' = Some (PStr ''phd'')) \<and>
   (\<exists>t' self'. thesis_info ascii_upper sample_record_ref [] (PDict [(''b'', PStr [])]) =
        Inr (PDict t', self') \<and> map_of t' ''degree_type'' = Some PNone)"
  using thesis_info_degree_type [where self = "[]" and t = "[]"
      and d = "[(''b'', PStr ''ph.d. THESIS'')]" and b = "PStr ''ph.d. THESIS''"
      and s = "''ph.d. THESIS''" and get_record_ref = sample_record_ref
      and str_upper = ascii_upper]
    thesis_info_degree_type [where self = "[]" and t = "[]"
      and d = "[(''b'', PStr [])]" and b = "PStr []"
      and s = "[]" and get_record_ref = sample_record_ref
      and str_upper = ascii_upper]
  by (simp add: dict_get_def force_single_element_def ascii_upper_degree_example) blast

text \<open>
  C2 as stated fails: for an occurrence without sub-field \<^verbatim>\<open>b\<close> the returned object does
  have the key \<^verbatim>\<open>degree_type\<close>, holding \<^verbatim>\<open>None\<close>.
\<close>

theorem thesis_info_degree_type_key_counterexample:
  "thesis_info ascii_upper sample_record_ref [] (PDict [(''d'', PStr ''2001'')]) =
     Inr (PDict [(''date'', PStr ''2001''), (''degree_type'', PNone), (''institutions'', PList [])], []) \<and>
   map_of [(''date'', PStr ''2001''), (''degree_type'', PNone), (''institutions'', PList [])]
     ''degree_type'' \<noteq> None"
  by (simp add: thesis_info_def get_degree_type_def get_institutions_def dict_get_def
      force_single_element_def write_back_def)

text \<open>
  C4. In the forward thesis-info rule, when the name list \<^verbatim>\<open>c\<close> and the reference-key
  list \<^verbatim>\<open>z\<close> differ in length, the institutions list holds one entry per name with the
  key \<^verbatim>\<open>name\<close> only, so no entry has a record reference or a \<^verbatim>\<open>curated_relation\<close>
  flag; when the lengths are equal, the lists are zipped into entries pairing each name with
  its resolved reference. The rule stores this list under \<^verbatim>\<open>institutions\<close>.
\<close>

theorem institutions_zip_only_equal_length:
  assumes "force_list (dict_get d ''c'' PNone) = cs"
      and "force_list (dict_get d ''z'' PNone) = zs"
  shows "\<exists>insts. get_institutions get_record_ref (PDict d) = Inr (PList insts) \<and>
           (\<forall>str_upper self t' self'.
              thesis_info str_upper get_record_ref self (PDict d) = Inr (PDict t', self') \<longrightarrow>
              map_of t' ''institutions'' = Some (PList insts)) \<and>
           (length cs \<noteq> length zs \<longrightarrow>
              insts = map (\<lambda>c. PDict [(''name'', c)]) cs) \<and>
           (length cs = length zs \<longrightarrow>
              insts = map (\<lambda>(c, z). PDict [(''curated_relation'', PBool True), (''name'', c),
                                            (''record'', get_record_ref z ''institutions'')])
                        (zip cs zs))"
proof -
  obtain insts where run: "get_institutions get_record_ref (PDict d) = Inr (PList insts)"
    by (simp add: get_institutions_dict)
  have stored: "map_of t' ''institutions'' = Some (PList insts)"
    if "thesis_info str_upper get_record_ref self (PDict d) = Inr (PDict t', self')"
    for str_upper self t' self'
    using that run
    by (auto simp: thesis_info_def rbind_eq_Inr py_setitem_eq_Inr map_of_dict_set)
  from run assms have shape:
    "insts = (if length cs \<noteq> length zs then map (\<lambda>c. PDict [(''name'', c)]) cs
              else map (\<lambda>(c, z). PDict [(''curated_relation'', PBool True), (''name'', c),
                                          (''record'', get_record_ref z ''institutions'')])
                     (zip cs zs))"
    by (simp add: get_institutions_dict Let_def)
  show ?thesis using run stored shape by auto
qed

theorem institutions_zip_only_equal_length_witness:
  "get_institutions sample_record_ref
     (PDict [(''c'', PList [PStr ''CERN'', PStr ''DESY'']), (''z'', PStr ''902725'')]) =
     Inr (PList [PDict [(''name'', PStr ''CERN'')], PDict [(''name'', PStr ''DESY'')]]) \<and>
   get_institutions sample_record_ref
     (PDict [(''c'', PStr ''CERN''), (''z'', PStr ''902725'')]) =
     Inr (PList [PDict [(''curated_relation'', PBool True), (''name'', PStr ''CERN''),
                        (''record'', PDict [(''$ref'', PStr ''/api/institutions/902725'')])]])"
  using institutions_zip_only_equal_length [where d = "[(''c'', PList [PStr ''CERN'', PStr ''DESY'']), (''z'', PStr ''902725'')]"
      and cs = "[PStr ''CERN'', PStr ''DESY'']" and zs = "[PStr ''902725'']"
      and get_record_ref = sample_record_ref]
    institutions_zip_only_equal_length [where d = "[(''c'', PStr ''CERN''), (''z'', PStr ''902725'')]"
      and cs = "[PStr ''CERN'']" and zs = "[PStr ''902725'']"
      and get_record_ref = sample_record_ref]
  by (auto simp: dict_get_def)

text \<open>
  C9. The forward thesis-info rule merges into a thesis-info object already present in the
  output record: every key other than \<^verbatim>\<open>date\<close>, \<^verbatim>\<open>degree_type\<close> and
  \<^verbatim>\<open>institutions\<close> keeps its value in the returned object, so a \<^verbatim>\<open>defense_date\<close> set
  earlier by the tag-500 rule is still there, unchanged.
\<close>

theorem thesis_info_merges:
  assumes "map_of self ''thesis_info'' = Some (PDict t)"
      and "force_single_element (dict_get d ''b'' (PStr [])) = b"
      and "(\<exists>s. b = PStr s) \<or> \<not> truthy b"
  shows "\<exists>t'. thesis_info str_upper get_record_ref self (PDict d) =
                 Inr (PDict t', dict_set self ''thesis_info'' (PDict t')) \<and>
              (\<forall>k. k \<notin> {''date'', ''degree_type'', ''institutions''} \<longrightarrow> map_of t' k = map_of t k) \<and>
              (\<forall>v. map_of t ''defense_date'' = Some v \<longrightarrow> map_of t' ''defense_date'' = Some v)"
proof -
  obtain dt where dt: "get_degree_type str_upper (PDict d) = Inr dt"
    using get_degree_type_returns [OF assms(2,3)] by blast
  obtain inst where inst: "get_institutions get_record_ref (PDict d) = Inr inst"
    by (simp add: get_institutions_dict)
  define t' where "t' = dict_set (dict_set (dict_set t ''date'' (force_single_element (dict_get d ''d'' PNone)))
                  ''degree_type'' dt) ''institutions'' inst"
  have self: "dict_get self ''thesis_info'' (PDict []) = PDict t"
    using assms(1) by (simp add: dict_get_def)
  have "thesis_info str_upper get_record_ref self (PDict d) =
           Inr (PDict t', write_back self ''thesis_info'' (PDict t'))"
    using self dt inst t'_def by (rule thesis_info_dict)
  then have run: "thesis_info str_upper get_record_ref self (PDict d) =
           Inr (PDict t', dict_set self ''thesis_info'' (PDict t'))"
    using assms(1) by (simp add: write_back_def)
  have frame: "map_of t' k = map_of t k"
    if "k \<notin> {''date'', ''degree_type'', ''institutions''}" for k
    using that by (simp add: t'_def map_of_dict_set)
  have "map_of t' ''defense_date'' = map_of t ''defense_date''"
    by (rule frame) simp
  with run frame show ?thesis by auto
qed

theorem thesis_info_merges_witness:
  "\<exists>t'. thesis_info ascii_upper sample_record_ref
           [(''thesis_info'', PDict [(''defense_date'', PStr ''1999-05'')])]
           (PDict [(''b'', PStr ''PhD''), (''d'', PStr ''1999'')]) =
           Inr (PDict t', [(''thesis_info'', PDict t')]) \<and>
         map_of t' ''defense_date'' = Some (PStr ''1999-05'')"
  using thesis_info_merges [where self = "[(''thesis_info'', PDict [(''defense_date'', PStr ''1999-05'')])]"
      and t = "[(''defense_date'', PStr ''1999-05'')]"
      and d = "[(''b'', PStr ''PhD''), (''d'', PStr ''1999'')]" and b = "PStr ''PhD''"
      and get_record_ref = sample_record_ref and str_upper = ascii_upper]
  by (simp add: dict_get_def force_single_element_def) blast

section \<open>Tags 536, 540, 542: round trips\<close>

lemma funding_round_trip_dict:
  "rbind (funding_info (PDict d)) funding_info2marc =
     Inr (PList [PDict [(''a'', dict_get d ''a'' PNone), (''c'', dict_get d ''c'' PNone),
                        (''f'', dict_get d ''f'' PNone)]])"
  by (simp add: funding_info_def funding_info2marc_def for_each_value_dict for_each_value_singleton
      funding_info_body_def funding_info2marc_body_def dict_get_def)

lemma license_round_trip_dict:
  "rbind (license (PDict d)) license2marc =
     Inr (PList [PDict [(''a'', force_single_element (dict_get d ''a'' PNone)),
                        (''b'', dict_get d ''b'' PNone), (''u'', dict_get d ''u'' PNone),
                        (''3'', dict_get d ''3'' PNone)]])"
  by (simp add: license_def license2marc_def for_each_value_dict for_each_value_singleton
      license_body_dict license2marc_body_def dict_get_def)

lemma dom_map_of_present: "dom (map_of d) = K \<Longrightarrow> k \<in> K \<Longrightarrow> \<exists>v. map_of d k = Some v"
  by auto

lemma dom_map_of_absent: "dom (map_of d) = K \<Longrightarrow> k \<notin> K \<Longrightarrow> map_of d k = None"
  by auto

lemma not_own_first_element: "x \<noteq> PList (x # xs)"
proof -
  have "size x < size (PList (x # xs))" by simp
  then show ?thesis by (metis less_irrefl)
qed

lemma force_single_element_fixed:
  "force_single_element v = v \<longleftrightarrow> (\<forall>xs. v \<noteq> PList xs)"
proof (cases v)
  case (PList xs)
  show ?thesis
  proof (cases xs)
    case Nil
    with PList show ?thesis by (simp add: force_single_element_def)
  next
    case (Cons y ys)
    have "y \<noteq> PList (y # ys)" by (rule not_own_first_element)
    with PList Cons show ?thesis by (simp add: force_single_element_def)
  qed
qed (simp_all add: force_single_element_def)

lemma funding_occ_keys:
  "dom (map_of [(''a'', x), (''c'', y), (''f'', z)]) = {''a'', ''c'', ''f''}"
  by auto

lemma license_occ_keys:
  "dom (map_of [(''a'', x), (''b'', y), (''u'', z), (''3'', w)]) = {''a'', ''b'', ''u'', ''3''}"
  by auto

lemma funding_occ_eq_iff:
  "map_of [(''a'', dict_get d ''a'' PNone), (''c'', dict_get d ''c'' PNone),
           (''f'', dict_get d ''f'' PNone)] = map_of d \<longleftrightarrow>
   dom (map_of d) = {''a'', ''c'', ''f''}"
  (is "map_of ?occ = map_of d \<longleftrightarrow> _")
proof
  assume eq: "map_of ?occ = map_of d"
  have "dom (map_of d) = dom (map_of ?occ)" by (simp only: eq)
  also have "\<dots> = {''a'', ''c'', ''f''}" by (rule funding_occ_keys)
  finally show "dom (map_of d) = {''a'', ''c'', ''f''}" .
next
  assume dom: "dom (map_of d) = {''a'', ''c'', ''f''}"
  have "map_of ?occ k = map_of d k" for k
  proof (cases "k \<in> {''a'', ''c'', ''f''}")
    case True
    then obtain v where "map_of d k = Some v"
      using dom_map_of_present [OF dom] by blast
    with True show ?thesis by (auto simp: dict_get_def)
  next
    case False
    then have "map_of d k = None" using dom_map_of_absent [OF dom] by blast
    with False show ?thesis by simp
  qed
  then show "map_of ?occ = map_of d" by (rule ext)
qed

lemma license_occ_eq_iff:
  "map_of [(''a'', force_single_element (dict_get d ''a'' PNone)), (''b'', dict_get d ''b'' PNone),
           (''u'', dict_get d ''u'' PNone), (''3'', dict_get d ''3'' PNone)] = map_of d \<longleftrightarrow>
   dom (map_of d) = {''a'', ''b'', ''u'', ''3''} \<and> (\<forall>xs. map_of d ''a'' \<noteq> Some (PList xs))"
  (is "map_of ?occ = map_of d \<longleftrightarrow> _")
proof
  assume eq: "map_of ?occ = map_of d"
  have "dom (map_of d) = dom (map_of ?occ)" by (simp only: eq)
  also have "\<dots> = {''a'', ''b'', ''u'', ''3''}" by (rule license_occ_keys)
  finally have dom: "dom (map_of d) = {''a'', ''b'', ''u'', ''3''}" .
  obtain a where a: "map_of d ''a'' = Some a"
    using dom_map_of_present [OF dom, of "''a''"] by auto
  have get: "dict_get d ''a'' PNone = a"
    by (simp add: dict_get_def a)
  have "map_of ?occ ''a'' = map_of d ''a''" using eq by (rule fun_cong)
  then have "force_single_element a = a"
    unfolding a get by simp
  then have "\<forall>xs. a \<noteq> PList xs" by (rule force_single_element_fixed [THEN iffD1])
  then have "\<forall>xs. map_of d ''a'' \<noteq> Some (PList xs)" by (simp add: a)
  with dom show "dom (map_of d) = {''a'', ''b'', ''u'', ''3''} \<and>
      (\<forall>xs. map_of d ''a'' \<noteq> Some (PList xs))" by (rule conjI)
next
  assume asm: "dom (map_of d) = {''a'', ''b'', ''u'', ''3''} \<and>
      (\<forall>xs. map_of d ''a'' \<noteq> Some (PList xs))"
  then have dom: "dom (map_of d) = {''a'', ''b'', ''u'', ''3''}" by (rule conjunct1)
  obtain a where a: "map_of d ''a'' = Some a"
    using dom_map_of_present [OF dom, of "''a''"] by auto
  from asm have "\<forall>xs. a \<noteq> PList xs" by (simp add: a)
  then have "force_single_element a = a" by (rule force_single_element_fixed [THEN iffD2])
  then have fse: "force_single_element (dict_get d ''a'' PNone) = a"
    by (simp add: dict_get_def a)
  have "map_of ?occ k = map_of d k" for k
  proof (cases "k \<in> {''a'', ''b'', ''u'', ''3''}")
    case True
    then obtain v where "map_of d k = Some v"
      using dom_map_of_present [OF dom] by blast
    with True a show ?thesis unfolding fse by (auto simp: dict_get_def)
  next
    case False
    then have "map_of d k = None" using dom_map_of_absent [OF dom] by blast
    with False show ?thesis by simp
  qed
  then show "map_of ?occ = map_of d" by (rule ext)
qed


text \<open>
  C5, as the code has it. For a single raw occurrence of the funding tag, the forward rule
  followed by the backward rule returns the one-element list of an occurrence that equals
  the original up to key order exactly when the sub-field codes of the original are
  \<^verbatim>\<open>a\<close>, \<^verbatim>\<open>c\<close>, \<^verbatim>\<open>f\<close>. For the licensing tag it does so exactly when the codes are
  \<^verbatim>\<open>a\<close>, \<^verbatim>\<open>b\<close>, \<^verbatim>\<open>u\<close>, \<^verbatim>\<open>3\<close> and sub-field \<^verbatim>\<open>a\<close> is not a sequence.
\<close>

theorem funding_license_round_trip:
  "(\<exists>occ. rbind (funding_info (PDict d)) funding_info2marc = Inr (PList [PDict occ]) \<and>
          (map_of occ = map_of d \<longleftrightarrow> dom (map_of d) = {''a'', ''c'', ''f''})) \<and>
   (\<exists>occ. rbind (license (PDict d)) license2marc = Inr (PList [PDict occ]) \<and>
          (map_of occ = map_of d \<longleftrightarrow>
             dom (map_of d) = {''a'', ''b'', ''u'', ''3''} \<and>
             (\<forall>xs. map_of d ''a'' \<noteq> Some (PList xs))))"
proof (rule conjI)
  show "\<exists>occ. rbind (funding_info (PDict d)) funding_info2marc = Inr (PList [PDict occ]) \<and>
          (map_of occ = map_of d \<longleftrightarrow> dom (map_of d) = {''a'', ''c'', ''f''})"
    by (rule exI, rule conjI, rule funding_round_trip_dict, rule funding_occ_eq_iff)
  show "\<exists>occ. rbind (license (PDict d)) license2marc = Inr (PList [PDict occ]) \<and>
          (map_of occ = map_of d \<longleftrightarrow>
             dom (map_of d) = {''a'', ''b'', ''u'', ''3''} \<and>
             (\<forall>xs. map_of d ''a'' \<noteq> Some (PList xs)))"
    by (rule exI, rule conjI, rule license_round_trip_dict, rule license_occ_eq_iff)
qed

theorem funding_license_round_trip_witness:
  "(\<exists>occ. rbind (funding_info (PDict [(''c'', PStr ''DE-AC02''), (''a'', PStr ''DOE''), (''f'', PStr ''P1'')]))
            funding_info2marc = Inr (PList [PDict occ]) \<and>
          map_of occ = map_of [(''c'', PStr ''DE-AC02''), (''a'', PStr ''DOE''), (''f'', PStr ''P1'')]) \<and>
   (\<exists>occ. rbind (license (PDict [(''u'', PStr ''http://creativecommons.org/licenses/by/4.0/''),
                                 (''a'', PStr ''CC-BY-4.0''), (''b'', PStr ''Elsevier''),
                                 (''3'', PStr ''Article'')]))
            license2marc = Inr (PList [PDict occ]) \<and>
          map_of occ = map_of [(''u'', PStr ''http://creativecommons.org/licenses/by/4.0/''),
                               (''a'', PStr ''CC-BY-4.0''), (''b'', PStr ''Elsevier''),
                               (''3'', PStr ''Article'')])"
proof (rule conjI)
  let ?d1 = "[(''c'', PStr ''DE-AC02''), (''a'', PStr ''DOE''), (''f'', PStr ''P1'')]"
  have h1: "dom (map_of ?d1) = {''a'', ''c'', ''f''}"
    by auto
  from funding_license_round_trip [of ?d1]
  obtain occ where run: "rbind (funding_info (PDict ?d1)) funding_info2marc = Inr (PList [PDict occ])"
      and eq: "map_of occ = map_of ?d1 \<longleftrightarrow> dom (map_of ?d1) = {''a'', ''c'', ''f''}"
    by (elim conjE exE)
  from eq h1 have "map_of occ = map_of ?d1" by (rule iffD2)
  with run show "\<exists>occ. rbind (funding_info (PDict ?d1)) funding_info2marc = Inr (PList [PDict occ]) \<and>
          map_of occ = map_of ?d1"
    by (intro exI conjI)
next
  let ?d2 = "[(''u'', PStr ''http://creativecommons.org/licenses/by/4.0/''),
              (''a'', PStr ''CC-BY-4.0''), (''b'', PStr ''Elsevier''), (''3'', PStr ''Article'')]"
  have h2: "dom (map_of ?d2) = {''a'', ''b'', ''u'', ''3''} \<and>
            (\<forall>xs. map_of ?d2 ''a'' \<noteq> Some (PList xs))"
    by auto
  from funding_license_round_trip [of ?d2]
  obtain occ where run: "rbind (license (PDict ?d2)) license2marc = Inr (PList [PDict occ])"
      and eq: "map_of occ = map_of ?d2 \<longleftrightarrow>
                 dom (map_of ?d2) = {''a'', ''b'', ''u'', ''3''} \<and>
                 (\<forall>xs. map_of ?d2 ''a'' \<noteq> Some (PList xs))"
    by (elim conjE exE)
  from eq h2 have "map_of occ = map_of ?d2" by (rule iffD2)
  with run show "\<exists>occ. rbind (license (PDict ?d2)) license2marc = Inr (PList [PDict occ]) \<and>
          map_of occ = map_of ?d2"
    by (intro exI conjI)
qed

text \<open>
  C5 as stated fails: a funding occurrence with sub-field \<^verbatim>\<open>a\<close> only comes back with the
  keys \<^verbatim>\<open>c\<close> and \<^verbatim>\<open>f\<close> added, holding \<^verbatim>\<open>None\<close>; a funding occurrence with a further
  sub-field \<^verbatim>\<open>9\<close> comes back without it; a licensing occurrence with a repeated sub-field
  \<^verbatim>\<open>a\<close> comes back with the first value only.
\<close>

theorem funding_license_round_trip_counterexample:
  "rbind (funding_info (PDict [(''a'', PStr ''DOE'')])) funding_info2marc =
     Inr (PList [PDict [(''a'', PStr ''DOE''), (''c'', PNone), (''f'', PNone)]]) \<and>
   map_of [(''a'', PStr ''DOE''), (''c'', PNone), (''f'', PNone)] ''c'' \<noteq>
     map_of [(''a'', PStr ''DOE'')] ''c'' \<and>
   rbind (funding_info (PDict [(''a'', PStr ''DOE''), (''c'', PStr ''DE-AC02''), (''f'', PStr ''P1''),
                               (''9'', PStr ''arXiv'')])) funding_info2marc =
     Inr (PList [PDict [(''a'', PStr ''DOE''), (''c'', PStr ''DE-AC02''), (''f'', PStr ''P1'')]]) \<and>
   map_of [(''a'', PStr ''DOE''), (''c'', PStr ''DE-AC02''), (''f'', PStr ''P1'')] ''9'' \<noteq>
     map_of [(''a'', PStr ''DOE''), (''c'', PStr ''DE-AC02''), (''f'', PStr ''P1''),
             (''9'', PStr ''arXiv'')] ''9'' \<and>
   rbind (license (PDict [(''a'', PList [PStr ''CC-BY-4.0'', PStr ''Open Access'']),
                          (''b'', PStr ''Elsevier''), (''u'', PStr ''http://example.org/''),
                          (''3'', PStr ''Article'')])) license2marc =
     Inr (PList [PDict [(''a'', PStr ''CC-BY-4.0''), (''b'', PStr ''Elsevier''),
                        (''u'', PStr ''http://example.org/''), (''3'', PStr ''Article'')]]) \<and>
   PStr ''CC-BY-4.0'' \<noteq> PList [PStr ''CC-BY-4.0'', PStr ''Open Access'']"
  by (simp add: funding_round_trip_dict license_round_trip_dict dict_get_def force_single_element_def)

lemma table_get_MATERIAL_MAP:
  "hashable m \<Longrightarrow>
   table_get MATERIAL_MAP m =
     Inr (if m = PStr ''Article'' \<or> m = PStr ''Published thesis as a book''
          then PStr ''publication'' else PNone)"
  by (cases m) (auto simp: table_get_def MATERIAL_MAP_def)

lemma table_get_E_MAP:
  "table_get E_MAP (PStr ''publication'') = Inr (PStr ''Article'')"
  "table_get E_MAP PNone = Inr PNone"
  by (simp_all add: table_get_def E_MAP_def)

lemma copyright_body_dict:
  assumes "material = (if truthy (dict_get d ''e'' PNone) then dict_get d ''e'' PNone
                       else dict_get d ''3'' PNone)"
      and "hashable material"
  shows "copyright_body maybe_int (PDict d) =
           Inr (PDict [(''holder'', dict_get d ''d'' PNone),
                       (''material'', if material = PStr ''Article'' \<or>
                                         material = PStr ''Published thesis as a book''
                                      then PStr ''publication'' else PNone),
                       (''statement'', dict_get d ''f'' PNone),
                       (''url'', dict_get d ''u'' PNone),
                       (''year'', maybe_int (dict_get d ''g'' PNone))])"
proof -
  have "copyright_body maybe_int (PDict d) =
          rbind (table_get MATERIAL_MAP material) (\<lambda>m.
            Inr (PDict [(''holder'', dict_get d ''d'' PNone), (''material'', m),
                        (''statement'', dict_get d ''f'' PNone), (''url'', dict_get d ''u'' PNone),
                        (''year'', maybe_int (dict_get d ''g'' PNone))]))"
    unfolding assms(1) by (simp add: copyright_body_def)
  then show ?thesis
    by (simp only: table_get_MATERIAL_MAP [OF assms(2)] rbind.simps)
qed

lemma copyright2marc_body_entry:
  "copyright2marc_body (PDict [(''holder'', h), (''material'', if c then PStr ''publication'' else PNone),
                               (''statement'', f), (''url'', u), (''year'', y)]) =
     Inr (PDict [(''d'', h), (''e'', if c then PStr ''Article'' else PNone),
                 (''f'', f), (''g'', y), (''u'', u)])"
  by (simp add: copyright2marc_body_def dict_get_def table_get_E_MAP)

lemma copyright_round_trip_dict:
  assumes "material = (if truthy (dict_get d ''e'' PNone) then dict_get d ''e'' PNone
                       else dict_get d ''3'' PNone)"
      and "hashable material"
  shows "rbind (copyright maybe_int (PDict d)) copyright2marc =
           Inr (PList [PDict [(''d'', dict_get d ''d'' PNone),
                              (''e'', if material = PStr ''Article'' \<or>
                                         material = PStr ''Published thesis as a book''
                                      then PStr ''Article'' else PNone),
                              (''f'', dict_get d ''f'' PNone),
                              (''g'', maybe_int (dict_get d ''g'' PNone)),
                              (''u'', dict_get d ''u'' PNone)]])"
  by (simp only: copyright_def copyright2marc_def for_each_value_dict for_each_value_singleton
      copyright_body_dict [OF assms] rbind.simps copyright2marc_body_entry)

text \<open>
  C6. For a raw copyright occurrence with both material sub-fields \<^verbatim>\<open>e\<close> and \<^verbatim>\<open>3\<close>
  present, the forward rule followed by the backward rule rebuilds sub-field \<^verbatim>\<open>e\<close> only,
  from the value of \<^verbatim>\<open>e\<close> sent through the material table and back, and the result has
  no sub-field \<^verbatim>\<open>3\<close>: the occurrence does not round-trip.
\<close>

theorem copyright_round_trip_lossy:
  assumes "map_of d ''e'' = Some e"
      and "map_of d ''3'' = Some m"
      and "truthy e"
      and "hashable e"
  shows "\<exists>occ. rbind (copyright maybe_int (PDict d)) copyright2marc = Inr (PList [PDict occ]) \<and>
           map_of occ ''e'' =
             Some (if e = PStr ''Article'' \<or> e = PStr ''Published thesis as a book''
                   then PStr ''Article'' else PNone) \<and>
           map_of occ ''3'' = None \<and>
           map_of occ \<noteq> map_of d"
proof -
  let ?occ = "[(''d'', dict_get d ''d'' PNone),
               (''e'', if e = PStr ''Article'' \<or> e = PStr ''Published thesis as a book''
                       then PStr ''Article'' else PNone),
               (''f'', dict_get d ''f'' PNone),
               (''g'', maybe_int (dict_get d ''g'' PNone)),
               (''u'', dict_get d ''u'' PNone)]"
  have material: "e = (if truthy (dict_get d ''e'' PNone) then dict_get d ''e'' PNone
                       else dict_get d ''3'' PNone)"
    using assms(1,3) by (simp add: dict_get_def)
  have run: "rbind (copyright maybe_int (PDict d)) copyright2marc = Inr (PList [PDict ?occ])"
    using copyright_round_trip_dict [OF material assms(4)] .
  have no3: "map_of ?occ ''3'' = None" by simp
  then have "map_of ?occ ''3'' \<noteq> map_of d ''3''" using assms(2) by simp
  then have "map_of ?occ \<noteq> map_of d" by metis
  with run no3 show ?thesis by auto
qed

theorem copyright_round_trip_lossy_witness:
  "\<exists>occ. rbind (copyright (\<lambda>g. PNone) (PDict [(''e'', PStr ''Published thesis as a book''),
                                           (''3'', PStr ''Preprint''), (''d'', PStr ''CERN'')]))
            copyright2marc = Inr (PList [PDict occ]) \<and>
         map_of occ ''e'' = Some (PStr ''Article'') \<and> map_of occ ''3'' = None"
  using copyright_round_trip_lossy [where d = "[(''e'', PStr ''Published thesis as a book''),
                                           (''3'', PStr ''Preprint''), (''d'', PStr ''CERN'')]"
      and e = "PStr ''Published thesis as a book''" and m = "PStr ''Preprint''"
      and maybe_int = "\<lambda>g. PNone"]
  by simp blast

section \<open>Tag 595: HAL notes\<close>

lemma for_loop_append:
  "for_loop (\<lambda>ns note. py_append ns (mk note)) (PList ns) xs = Inr (PList (ns @ map mk xs))"
  by (induction xs arbitrary: ns) simp_all

lemma private_notes_hal_occurrence_dict:
  "private_notes_hal_occurrence (PList ns) (PDict d) =
     Inr (PList (ns @ map (\<lambda>note. PDict [(''source'', PStr ''HAL''), (''value'', note)])
                        (force_list (dict_get d ''a'' PNone))))"
  by (simp add: private_notes_hal_occurrence_def for_loop_append)

lemma private_notes_hal_loop:
  "for_loop private_notes_hal_occurrence (PList ns) (map PDict ds) =
     Inr (PList (ns @ concat (map (\<lambda>d. map (\<lambda>note. PDict [(''source'', PStr ''HAL''), (''value'', note)])
                                          (force_list (dict_get d ''a'' PNone))) ds)))"
  by (induction ds arbitrary: ns) (simp_all add: private_notes_hal_occurrence_dict)

lemma private_notes2marc_step_dict:
  "private_notes2marc_step (PList r, PList h) (PDict n) =
     Inr (if dict_get n ''source'' PNone = PStr ''HAL''
          then (PList r, PList (h @ [PDict [(''a'', dict_get n ''value'' PNone)]]))
          else (PList (r @ [PDict [(''9'', dict_get n ''source'' PNone),
                                   (''a'', dict_get n ''value'' PNone)]]), PList h))"
  by (simp add: private_notes2marc_step_def)

lemma private_notes2marc_loop:
  "for_loop private_notes2marc_step (PList r, PList h) (map PDict ns) =
     Inr (PList (r @ map (\<lambda>n. PDict [(''9'', dict_get n ''source'' PNone),
                                      (''a'', dict_get n ''value'' PNone)])
                       (filter (\<lambda>n. dict_get n ''source'' PNone \<noteq> PStr ''HAL'') ns)),
          PList (h @ map (\<lambda>n. PDict [(''a'', dict_get n ''value'' PNone)])
                       (filter (\<lambda>n. dict_get n ''source'' PNone = PStr ''HAL'') ns)))"
  by (induction ns arbitrary: r h) (simp_all add: private_notes2marc_step_dict)

text \<open>
  C8. Every private-note entry that the forward HAL rule appends has source \<^verbatim>\<open>'HAL'\<close>,
  whatever sub-field \<^verbatim>\<open>9\<close> of the raw occurrence holds. In the backward direction every
  note whose source is \<^verbatim>\<open>'HAL'\<close> goes to the 595_H list stored in the output record and
  not to the returned 595 list, and every other note goes to the 595 list.
\<close>

theorem hal_notes_attribution_and_routing:
  assumes "dict_get self ''_private_notes'' (PList []) = PList old"
      and "force_list raw = map PDict occs"
      and "dict_get out ''595'' (PList []) = PList r0"
      and "dict_get out ''595_H'' (PList []) = PList h0"
      and "force_list sem = map PDict ns"
  shows "(\<exists>new self'. private_notes_hal self raw = Inr (PList (old @ new), self') \<and>
            new = concat (map (\<lambda>d. map (\<lambda>note. PDict [(''source'', PStr ''HAL''), (''value'', note)])
                                       (force_list (dict_get d ''a'' PNone))) occs) \<and>
            (\<forall>e \<in> set new. \<exists>v. e = PDict [(''source'', PStr ''HAL''), (''value'', v)])) \<and>
         (\<exists>out'. private_notes2marc out sem =
              Inr (PList (r0 @ map (\<lambda>n. PDict [(''9'', dict_get n ''source'' PNone),
                                                (''a'', dict_get n ''value'' PNone)])
                                 (filter (\<lambda>n. dict_get n ''source'' PNone \<noteq> PStr ''HAL'') ns)), out') \<and>
            map_of out' ''595_H'' =
              Some (PList (h0 @ map (\<lambda>n. PDict [(''a'', dict_get n ''value'' PNone)])
                                  (filter (\<lambda>n. dict_get n ''source'' PNone = PStr ''HAL'') ns))))"
proof (rule conjI)
  let ?new = "concat (map (\<lambda>d. map (\<lambda>note. PDict [(''source'', PStr ''HAL''), (''value'', note)])
                                       (force_list (dict_get d ''a'' PNone))) occs)"
  have "private_notes_hal self raw =
          Inr (PList (old @ ?new), write_back self ''_private_notes'' (PList (old @ ?new)))"
    by (simp add: private_notes_hal_def assms(1,2) private_notes_hal_loop)
  moreover have "\<forall>e \<in> set ?new. \<exists>v. e = PDict [(''source'', PStr ''HAL''), (''value'', v)]"
    by auto
  ultimately show "\<exists>new self'. private_notes_hal self raw = Inr (PList (old @ new), self') \<and>
            new = ?new \<and> (\<forall>e \<in> set new. \<exists>v. e = PDict [(''source'', PStr ''HAL''), (''value'', v)])"
    by blast
next
  let ?r = "PList (r0 @ map (\<lambda>n. PDict [(''9'', dict_get n ''source'' PNone),
                                                (''a'', dict_get n ''value'' PNone)])
                                 (filter (\<lambda>n. dict_get n ''source'' PNone \<noteq> PStr ''HAL'') ns))"
  let ?h = "PList (h0 @ map (\<lambda>n. PDict [(''a'', dict_get n ''value'' PNone)])
                                  (filter (\<lambda>n. dict_get n ''source'' PNone = PStr ''HAL'') ns))"
  have "private_notes2marc out sem = Inr (?r, dict_set (write_back out ''595'' ?r) ''595_H'' ?h)"
    by (simp add: private_notes2marc_def assms(3,4,5) private_notes2marc_loop)
  moreover have "map_of (dict_set (write_back out ''595'' ?r) ''595_H'' ?h) ''595_H'' = Some ?h"
    by (simp add: map_of_dict_set)
  ultimately show "\<exists>out'. private_notes2marc out sem = Inr (?r, out') \<and>
      map_of out' ''595_H'' = Some ?h"
    by blast
qed

theorem hal_notes_attribution_and_routing_witness:
  "(\<exists>self'. private_notes_hal [] (PDict [(''9'', PStr ''arXiv''), (''a'', PStr ''deposited'')]) =
       Inr (PList [PDict [(''source'', PStr ''HAL''), (''value'', PStr ''deposited'')]], self')) \<and>
   (\<exists>out'. private_notes2marc []
       (PList [PDict [(''source'', PStr ''HAL''), (''value'', PStr ''deposited'')],
               PDict [(''source'', PStr ''SPIRES''), (''value'', PStr ''checked'')]]) =
       Inr (PList [PDict [(''9'', PStr ''SPIRES''), (''a'', PStr ''checked'')]], out') \<and>
     map_of out' ''595_H'' = Some (PList [PDict [(''a'', PStr ''deposited'')]]))"
  using hal_notes_attribution_and_routing [where self = "[]" and old = "[]"
      and raw = "PDict [(''9'', PStr ''arXiv''), (''a'', PStr ''deposited'')]"
      and occs = "[[(''9'', PStr ''arXiv''), (''a'', PStr ''deposited'')]]"
      and out = "[]" and ?r0.0 = "[]" and ?h0.0 = "[]"
      and sem = "PList [PDict [(''source'', PStr ''HAL''), (''value'', PStr ''deposited'')],
               PDict [(''source'', PStr ''SPIRES''), (''value'', PStr ''checked'')]]"
      and ns = "[[(''source'', PStr ''HAL''), (''value'', PStr ''deposited'')],
               [(''source'', PStr ''SPIRES''), (''value'', PStr ''checked'')]]"]
  by (simp add: dict_get_def)

section \<open>Tag 500: defense date and note sources\<close>

lemma ascii_upper_length: "length (ascii_upper s) = length s"
  by (simp add: ascii_upper_def)

lemma IS_DEFENSE_DATE_ascii_None_iff:
  "IS_DEFENSE_DATE_ascii s = None \<longleftrightarrow>
     \<not> (\<exists>p year rest. s = p @ year @ rest \<and> ascii_upper p = ascii_upper ''Presented on '' \<and>
            length year = 4 \<and> list_all is_ascii_digit year)"
proof -
  let ?ok = "ascii_upper (take 13 s) = ascii_upper ''Presented on '' \<and>
             length (take 4 (drop 13 s)) = 4 \<and> list_all is_ascii_digit (take 4 (drop 13 s))"
  have len: "length ''Presented on '' = 13" by simp
  have none: "IS_DEFENSE_DATE_ascii s = None \<longleftrightarrow> \<not> ?ok"
    unfolding IS_DEFENSE_DATE_ascii_def Let_def len
    by (simp split: option.splits)
  have shape: "?ok \<longleftrightarrow> (\<exists>p year rest. s = p @ year @ rest \<and>
            ascii_upper p = ascii_upper ''Presented on '' \<and>
            length year = 4 \<and> list_all is_ascii_digit year)"
  proof
    assume ok: ?ok
    have "s = take 13 s @ take 4 (drop 13 s) @ drop 4 (drop 13 s)"
      by (simp only: append_take_drop_id)
    with ok show "\<exists>p year rest. s = p @ year @ rest \<and>
            ascii_upper p = ascii_upper ''Presented on '' \<and>
            length year = 4 \<and> list_all is_ascii_digit year"
      by blast
  next
    assume "\<exists>p year rest. s = p @ year @ rest \<and>
            ascii_upper p = ascii_upper ''Presented on '' \<and>
            length year = 4 \<and> list_all is_ascii_digit year"
    then obtain p year rest where s: "s = p @ year @ rest"
        and p: "ascii_upper p = ascii_upper ''Presented on ''"
        and y: "length year = 4" "list_all is_ascii_digit year"
      by blast
    from p have "length (ascii_upper p) = length (ascii_upper ''Presented on '')" by simp
    then have lp: "length p = 13" by (simp add: ascii_upper_length)
    from s lp y have "take 13 s = p" "take 4 (drop 13 s) = year" by simp_all
    with p y show ?ok by simp
  qed
  show ?thesis unfolding none shape ..
qed

lemma public_note_loop:
  "for_loop (public_note_step match_defense_date source) (PList ns, PDict t) (map PStr texts) =
     Inr (PList (ns @ map (\<lambda>x. PDict [(''source'', source), (''value'', PStr x)])
                       (filter (\<lambda>x. match_defense_date x = None) texts)),
          PDict (fold (\<lambda>x t. case match_defense_date x of
                                None \<Rightarrow> t
                              | Some date \<Rightarrow> dict_set t ''defense_date'' (PStr date)) texts t))"
  by (induction texts arbitrary: ns t) (simp_all split: option.splits)

lemma public_notes_texts:
  assumes "dict_get self ''public_notes'' (PList []) = PList old"
      and "dict_get self ''thesis_info'' (PDict []) = PDict t"
      and "force_list (dict_get d ''a'' PNone) = map PStr texts"
      and "notes = PList (old @ map (\<lambda>x. PDict [(''source'', force_single_element (dict_get d ''9'' (PStr []))),
                                                 (''value'', PStr x)])
                                  (filter (\<lambda>x. match_defense_date x = None) texts))"
      and "ti = PDict (fold (\<lambda>x t. case match_defense_date x of
                                None \<Rightarrow> t
                              | Some date \<Rightarrow> dict_set t ''defense_date'' (PStr date)) texts t)"
  shows "public_notes match_defense_date self (PDict d) =
           Inr (notes, dict_set (write_back self ''public_notes'' notes) ''thesis_info'' ti)"
  by (simp add: public_notes_def public_notes_occurrence_def assms public_note_loop)

lemma ascii_match_examples:
  "IS_DEFENSE_DATE_ascii ''Presented on 1999-05'' = Some ''1999-05''"
  "IS_DEFENSE_DATE_ascii ''Presented at CERN'' = None"
  "IS_DEFENSE_DATE_ascii ''12 pages'' = None"
  "IS_DEFENSE_DATE_ascii ''Invited talk'' = None"
  by code_simp+

lemma ascii_text_example: "ascii_text ''Presented on 1999-05''"
  by (simp add: ascii_text_def)

text \<open>
  C3. In the forward rule for tag 500, an occurrence whose text sub-field \<^verbatim>\<open>a\<close> is
  exactly \<^verbatim>\<open>Presented on 1999-05\<close> adds no entry to the returned note list, and the
  thesis-info object written into the output record has \<^verbatim>\<open>defense_date\<close> equal to
  \<^verbatim>\<open>1999-05\<close>. A text that the pattern does not match becomes a note entry with the
  source of the occurrence and leaves the thesis-info object as it was. Of the
  interpreter's matching the theorem uses only what it does on ASCII text.
\<close>

theorem public_notes_defense_date:
  assumes "dict_get self ''public_notes'' (PList []) = PList old"
      and "dict_get self ''thesis_info'' (PDict []) = PDict t"
      and "dict_get d ''a'' PNone = PStr note_text"
      and "\<forall>x. ascii_text x \<longrightarrow> match_defense_date x = IS_DEFENSE_DATE_ascii x"
  shows "(note_text = ''Presented on 1999-05'' \<longrightarrow>
            (\<exists>self'. public_notes match_defense_date self (PDict d) = Inr (PList old, self') \<and>
               map_of self' ''thesis_info'' =
                 Some (PDict (dict_set t ''defense_date'' (PStr ''1999-05''))))) \<and>
         (match_defense_date note_text = None \<longrightarrow>
            (\<exists>self'. public_notes match_defense_date self (PDict d) =
                 Inr (PList (old @ [PDict [(''source'', force_single_element (dict_get d ''9'' (PStr []))),
                                           (''value'', PStr note_text)]]), self') \<and>
               map_of self' ''thesis_info'' = Some (PDict t)))"
proof -
  have texts: "force_list (dict_get d ''a'' PNone) = map PStr [note_text]"
    using assms(3) by simp
  have run: "public_notes match_defense_date self (PDict d) =
      Inr (PList (old @ map (\<lambda>x. PDict [(''source'', force_single_element (dict_get d ''9'' (PStr []))),
                                          (''value'', PStr x)])
                          (filter (\<lambda>x. match_defense_date x = None) [note_text])),
           dict_set (write_back self ''public_notes''
               (PList (old @ map (\<lambda>x. PDict [(''source'', force_single_element (dict_get d ''9'' (PStr []))),
                                          (''value'', PStr x)])
                          (filter (\<lambda>x. match_defense_date x = None) [note_text]))))
             ''thesis_info''
             (PDict (fold (\<lambda>x t. case match_defense_date x of
                                None \<Rightarrow> t
                              | Some date \<Rightarrow> dict_set t ''defense_date'' (PStr date)) [note_text] t)))"
    using assms(1,2) texts by (rule public_notes_texts) simp_all
  show ?thesis
  proof (intro conjI impI)
    assume "note_text = ''Presented on 1999-05''"
    then have "match_defense_date note_text = Some ''1999-05''"
      using assms(4) by (simp add: ascii_text_example ascii_match_examples)
    with run show "\<exists>self'. public_notes match_defense_date self (PDict d) = Inr (PList old, self') \<and>
               map_of self' ''thesis_info'' =
                 Some (PDict (dict_set t ''defense_date'' (PStr ''1999-05'')))"
      by (simp add: map_of_dict_set)
  next
    assume "match_defense_date note_text = None"
    with run show "\<exists>self'. public_notes match_defense_date self (PDict d) =
                 Inr (PList (old @ [PDict [(''source'', force_single_element (dict_get d ''9'' (PStr []))),
                                           (''value'', PStr note_text)]]), self') \<and>
               map_of self' ''thesis_info'' = Some (PDict t)"
      by (simp add: map_of_dict_set)
  qed
qed

theorem public_notes_defense_date_witness:
  "(\<exists>self'. public_notes IS_DEFENSE_DATE_ascii [] (PDict [(''a'', PStr ''Presented on 1999-05'')]) =
       Inr (PList [], self') \<and>
      map_of self' ''thesis_info'' = Some (PDict [(''defense_date'', PStr ''1999-05'')])) \<and>
   (\<exists>self'. public_notes IS_DEFENSE_DATE_ascii []
       (PDict [(''9'', PStr ''arXiv''), (''a'', PStr ''Presented at CERN'')]) =
        Inr (PList [PDict [(''source'', PStr ''arXiv''), (''value'', PStr ''Presented at CERN'')]], self') \<and>
      map_of self' ''thesis_info'' = Some (PDict []))"
  using public_notes_defense_date [where self = "[]" and old = "[]" and t = "[]"
      and d = "[(''a'', PStr ''Presented on 1999-05'')]" and note_text = "''Presented on 1999-05''"
      and match_defense_date = IS_DEFENSE_DATE_ascii]
    public_notes_defense_date [where self = "[]" and old = "[]" and t = "[]"
      and d = "[(''9'', PStr ''arXiv''), (''a'', PStr ''Presented at CERN'')]"
      and note_text = "''Presented at CERN''" and match_defense_date = IS_DEFENSE_DATE_ascii]
  by (simp add: dict_get_def force_single_element_def ascii_match_examples)



end
